theory Spec2Isabelle
  imports Complex_Main "HOL-Library.Multiset" "HOL-Library.Monad_Syntax"
begin

section \<open>Gateway upgrade visualisation: a shallow embedding of \<open>upgrade_viz.py\<close>\<close>

text \<open>
  The parts of the source file, each after what it needs: the exceptions that can
  escape, the string and regular-expression primitives the parser relies on,
  \<open>datetime\<close>, \<open>UpgradeEvent\<close>, \<open>LogParser\<close>, \<open>calculate_upgrade_stats\<close> and
  \<open>SVGGanttChart.generate_chart\<close>.

  Conventions of the embedding.
  \<^item> A Python \<open>str\<close> is a \<open>string\<close>; a \<open>char\<close> stands for a code point below 256.
  \<^item> A Python \<open>float\<close> is an exact \<open>real\<close>: rounding of binary floating point is not
    represented.
  \<^item> A raised exception is the \<open>Inl\<close> branch of a sum; a method of a mutable object
    takes the object's state and returns the state it leaves behind.
  \<^item> A \<open>dict\<close> is an association list in insertion order; assigning to a key that is
    present keeps the key's position, as Python's \<open>dict\<close> does.
  \<^item> \<open>debug\<close> output and the serialised SVG text (style sheet, script, tooltip text) are
    not represented; the chart is the data the SVG elements are built from.
\<close>

subsection \<open>Exceptions\<close>

datatype error = ValueError | OverflowError | ZeroDivisionError

subsection \<open>Strings\<close>

text \<open>\<open>str.isspace\<close> and the class \<open>\s\<close> of \<open>re\<close> on code points below 256.\<close>

definition is_space :: "char \<Rightarrow> bool" where
  "is_space c =
     (let n = (of_char c :: nat)
      in (9 \<le> n \<and> n \<le> 13) \<or> (28 \<le> n \<and> n \<le> 32) \<or> n = 133 \<or> n = 160)"

text \<open>The class \<open>\d\<close> on code points below 256.\<close>

definition is_digit :: "char \<Rightarrow> bool" where
  "is_digit c = (let n = (of_char c :: nat) in 48 \<le> n \<and> n \<le> 57)"

text \<open>\<open>str.strip()\<close> without argument.\<close>

definition strip :: "string \<Rightarrow> string" where
  "strip s = rev (dropWhile is_space (rev (dropWhile is_space s)))"

text \<open>\<open>str.replace(old, new)\<close> for a non-empty \<open>old\<close>: left to right, without overlaps.\<close>

function replace :: "string \<Rightarrow> string \<Rightarrow> string \<Rightarrow> string" where
  "replace old new [] = []"
| "replace old new (c # cs) =
     (if old \<noteq> [] \<and> take (length old) (c # cs) = old
      then new @ replace old new (drop (length old - 1) cs)
      else c # replace old new cs)"
  by pat_completeness auto
termination
  by (relation "measure (\<lambda>(old, new, s). length s)") auto

subsection \<open>Regular expressions\<close>

text \<open>
  The five patterns of \<open>LogParser.__init__\<close> are sequences of literals, repetitions of one
  character class (greedy, possibly captured by a group) and \<open>$\<close>. \<open>match_here\<close> is the
  backtracking matcher of \<open>re\<close> on such sequences: a repetition first takes as many
  characters as it can and gives them back one at a time. It returns the groups, in
  order, and the text left after the match.
\<close>

datatype atom =
    Lit string
  | Rep "char \<Rightarrow> bool" nat "nat option"
  | Cap "char \<Rightarrow> bool" nat "nat option"
  | Eol

fun first_some :: "('a \<Rightarrow> 'b option) \<Rightarrow> 'a list \<Rightarrow> 'b option" where
  "first_some f [] = None"
| "first_some f (x # xs) = (case f x of Some y \<Rightarrow> Some y | None \<Rightarrow> first_some f xs)"

definition counts :: "(char \<Rightarrow> bool) \<Rightarrow> nat \<Rightarrow> nat option \<Rightarrow> string \<Rightarrow> nat list" where
  "counts c lo hi s =
     (let n = length (takeWhile c s);
          m = (case hi of None \<Rightarrow> n | Some h \<Rightarrow> min n h)
      in rev [lo ..< Suc m])"

fun match_here :: "atom list \<Rightarrow> string \<Rightarrow> (string list \<times> string) option" where
  "match_here [] s = Some ([], s)"
| "match_here (Lit l # as) s =
     (if take (length l) s = l then match_here as (drop (length l) s) else None)"
| "match_here (Rep c lo hi # as) s =
     first_some (\<lambda>k. match_here as (drop k s)) (counts c lo hi s)"
| "match_here (Cap c lo hi # as) s =
     first_some
       (\<lambda>k. case match_here as (drop k s) of
               None \<Rightarrow> None
             | Some (gs, r) \<Rightarrow> Some (take k s # gs, r))
       (counts c lo hi s)"
| "match_here (Eol # as) s =
     (if s = [] \<or> s = [CHR 0x0A] then match_here as s else None)"

text \<open>\<open>pattern.match\<close>: a match at the start of the string; also returns the matched text.\<close>

definition re_match :: "atom list \<Rightarrow> string \<Rightarrow> (string \<times> string list) option" where
  "re_match p s =
     (case match_here p s of
        None \<Rightarrow> None
      | Some (gs, r) \<Rightarrow> Some (take (length s - length r) s, gs))"

text \<open>\<open>pattern.search\<close>: the match at the leftmost position that has one.\<close>

fun re_search :: "atom list \<Rightarrow> string \<Rightarrow> string list option" where
  "re_search p [] = (case match_here p [] of None \<Rightarrow> None | Some (gs, r) \<Rightarrow> Some gs)"
| "re_search p (c # cs) =
     (case match_here p (c # cs) of
        None \<Rightarrow> re_search p cs
      | Some (gs, r) \<Rightarrow> Some gs)"

definition any_char :: "char \<Rightarrow> bool" where
  "any_char c = (c \<noteq> CHR 0x0A)"

definition quote :: string where
  "quote = [CHR 0x27]"

text \<open>
  \<open>^(\d{4}-\d{2}-\d{2}T\d{2}:\d{2}:\d{2}\.\d+\+\d{2}:\d{2})\<close>; its group 1 is the whole
  match, which \<open>re_match\<close> returns.
\<close>

definition timestamp_pattern :: "atom list" where
  "timestamp_pattern =
     [Rep is_digit 4 (Some 4), Lit ''-'', Rep is_digit 2 (Some 2), Lit ''-'',
      Rep is_digit 2 (Some 2), Lit ''T'', Rep is_digit 2 (Some 2), Lit '':'',
      Rep is_digit 2 (Some 2), Lit '':'', Rep is_digit 2 (Some 2), Lit ''.'',
      Rep is_digit 1 None, Lit ''+'', Rep is_digit 2 (Some 2), Lit '':'',
      Rep is_digit 2 (Some 2)]"

text \<open>\<open>Upgrading ([^\s]+) to version(.*)$\<close>\<close>

definition upgrade_start_pattern :: "atom list" where
  "upgrade_start_pattern =
     [Lit ''Upgrading '', Cap (\<lambda>c. \<not> is_space c) 1 None, Lit '' to version'',
      Cap any_char 0 None, Eol]"

text \<open>\<open>Updating upgrade_info to gw ([^:]+): \{'status': 'complete'.*'curr_ver': '([^']*)'.*\}\<close>\<close>

definition upgrade_complete_pattern :: "atom list" where
  "upgrade_complete_pattern =
     [Lit ''Updating upgrade_info to gw '', Cap (\<lambda>c. c \<noteq> CHR '':'') 1 None,
      Lit ('': {'status': 'complete'' @ quote), Rep any_char 0 None,
      Lit (quote @ ''curr_ver': '' @ quote), Cap (\<lambda>c. c \<noteq> CHR 0x27) 0 None,
      Lit quote, Rep any_char 0 None, Lit ''}'']"

text \<open>\<open>Updating upgrade_info to gw ([^:]+): \{'status': 'installing'.*\}\<close>\<close>

definition upgrade_installing_pattern :: "atom list" where
  "upgrade_installing_pattern =
     [Lit ''Updating upgrade_info to gw '', Cap (\<lambda>c. c \<noteq> CHR '':'') 1 None,
      Lit ('': {'status': 'installing'' @ quote), Rep any_char 0 None, Lit ''}'']"

text \<open>\<open>Upgrading gateways without controller upgrade\<close>\<close>

definition overall_start_pattern :: "atom list" where
  "overall_start_pattern = [Lit ''Upgrading gateways without controller upgrade'']"

subsection \<open>\<open>datetime\<close>\<close>

text \<open>
  An aware \<open>datetime\<close>: the local calendar fields and the offset of its \<open>tzinfo\<close> from
  UTC in seconds. Every \<open>datetime\<close> of the program comes from a timestamp with an
  explicit offset, so naive values do not occur.
\<close>

record datetime =
  year :: int
  month :: int
  day :: int
  hour :: int
  minute :: int
  second :: int
  microsecond :: int
  utcoffset :: int

definition is_leap :: "int \<Rightarrow> bool" where
  "is_leap y = (y mod 4 = 0 \<and> (y mod 100 \<noteq> 0 \<or> y mod 400 = 0))"

definition days_in_month :: "int \<Rightarrow> int \<Rightarrow> int" where
  "days_in_month y m =
     (if m = 2 then (if is_leap y then 29 else 28)
      else if m = 4 \<or> m = 6 \<or> m = 9 \<or> m = 11 then 30 else 31)"

definition days_before_year :: "int \<Rightarrow> int" where
  "days_before_year y = (let p = y - 1 in p * 365 + p div 4 - p div 100 + p div 400)"

definition days_before_month :: "int \<Rightarrow> int \<Rightarrow> int" where
  "days_before_month y m = sum_list (map (days_in_month y) [1 .. m - 1])"

text \<open>\<open>date.toordinal\<close>: 1 for 0001-01-01.\<close>

definition ymd2ord :: "int \<Rightarrow> int \<Rightarrow> int \<Rightarrow> int" where
  "ymd2ord y m d = days_before_year y + days_before_month y m + d"

definition MAXORDINAL :: int where
  "MAXORDINAL = 3652059"

text \<open>
  The checks of the constructor (\<open>_check_date_fields\<close>, \<open>_check_time_fields\<close>, and the
  bound on the offset of a \<open>timezone\<close>); each failure is a \<open>ValueError\<close>.
\<close>

definition fields_ok :: "datetime \<Rightarrow> bool" where
  "fields_ok d =
     (1 \<le> year d \<and> year d \<le> 9999 \<and> 1 \<le> month d \<and> month d \<le> 12 \<and>
      1 \<le> day d \<and> day d \<le> days_in_month (year d) (month d) \<and>
      0 \<le> hour d \<and> hour d \<le> 23 \<and> 0 \<le> minute d \<and> minute d \<le> 59 \<and>
      0 \<le> second d \<and> second d \<le> 59 \<and>
      0 \<le> microsecond d \<and> microsecond d \<le> 999999 \<and>
      - 86400 < utcoffset d \<and> utcoffset d < 86400)"

definition new_datetime :: "datetime \<Rightarrow> error + datetime" where
  "new_datetime d = (if fields_ok d then Inr d else Inl ValueError)"

text \<open>\<open>datetime.replace(second=s)\<close> and \<open>datetime.replace(microsecond=u)\<close> build a new object.\<close>

definition replace_second :: "datetime \<Rightarrow> int \<Rightarrow> error + datetime" where
  "replace_second d s = new_datetime (d\<lparr>second := s\<rparr>)"

definition replace_microsecond :: "datetime \<Rightarrow> int \<Rightarrow> error + datetime" where
  "replace_microsecond d u = new_datetime (d\<lparr>microsecond := u\<rparr>)"

text \<open>Microseconds since the start of day 0 of the calendar, on the local and on the UTC clock.\<close>

definition local_us :: "datetime \<Rightarrow> int" where
  "local_us d =
     ((ymd2ord (year d) (month d) (day d) * 86400
       + hour d * 3600 + minute d * 60 + second d) * 1000000) + microsecond d"

definition utc_us :: "datetime \<Rightarrow> int" where
  "utc_us d = local_us d - utcoffset d * 1000000"

text \<open>
  \<open>a - b\<close> on aware values is a \<open>timedelta\<close>, kept as a number of microseconds;
  \<open>total_seconds()\<close> divides it by \<open>10**6\<close>. Comparison of aware values compares
  the UTC instants.
\<close>

definition dt_sub :: "datetime \<Rightarrow> datetime \<Rightarrow> int" where
  "dt_sub a b = utc_us a - utc_us b"

definition total_seconds :: "int \<Rightarrow> real" where
  "total_seconds td = real_of_int td / 1000000"

text \<open>
  \<open>min\<close> and \<open>max\<close> (with or without \<open>key\<close>) of a non-empty sequence, given as its
  first element and the rest: the first element that no other one beats.
\<close>

fun py_min :: "('a \<Rightarrow> 'k::linorder) \<Rightarrow> 'a \<Rightarrow> 'a list \<Rightarrow> 'a" where
  "py_min key cur [] = cur"
| "py_min key cur (x # xs) = py_min key (if key x < key cur then x else cur) xs"

fun py_max :: "('a \<Rightarrow> 'k::linorder) \<Rightarrow> 'a \<Rightarrow> 'a list \<Rightarrow> 'a" where
  "py_max key cur [] = cur"
| "py_max key cur (x # xs) = py_max key (if key x > key cur then x else cur) xs"

subsubsection \<open>\<open>datetime.fromisoformat\<close>\<close>

text \<open>
  \<open>fromisoformat\<close> as of Python 3.11 to 3.13, on the two shapes \<open>parse_timestamp\<close> can
  pass to it: \<open>YYYY-MM-DDTHH:MM:SS.f+HH:MM\<close> and the same with the offset written
  \<open>+HHMM\<close>. The fraction may have any number of digits; the first six count. Any
  other text, and any field out of range, is a \<open>ValueError\<close>.
\<close>

definition digits_val :: "string \<Rightarrow> int" where
  "digits_val ds = foldl (\<lambda>a c. 10 * a + (int (of_char c) - 48)) 0 ds"

definition take_digits :: "nat \<Rightarrow> string \<Rightarrow> (int \<times> string) option" where
  "take_digits n s =
     (if n \<le> length s \<and> list_all is_digit (take n s)
      then Some (digits_val (take n s), drop n s) else None)"

definition take_lit :: "string \<Rightarrow> string \<Rightarrow> string option" where
  "take_lit l s = (if take (length l) s = l then Some (drop (length l) s) else None)"

definition take_fraction :: "string \<Rightarrow> (int \<times> string) option" where
  "take_fraction s =
     (let ds = takeWhile is_digit s
      in if ds = [] then None
         else Some (digits_val (take 6 (ds @ ''00000'')), drop (length ds) s))"

definition parse_isoformat :: "string \<Rightarrow> datetime option" where
  "parse_isoformat s0 = do {
     (y, s1) \<leftarrow> take_digits 4 s0;
     s2 \<leftarrow> take_lit ''-'' s1;
     (mo, s3) \<leftarrow> take_digits 2 s2;
     s4 \<leftarrow> take_lit ''-'' s3;
     (d, s5) \<leftarrow> take_digits 2 s4;
     s6 \<leftarrow> take_lit ''T'' s5;
     (h, s7) \<leftarrow> take_digits 2 s6;
     s8 \<leftarrow> take_lit '':'' s7;
     (mi, s9) \<leftarrow> take_digits 2 s8;
     s10 \<leftarrow> take_lit '':'' s9;
     (sec, s11) \<leftarrow> take_digits 2 s10;
     s12 \<leftarrow> take_lit ''.'' s11;
     (us, s13) \<leftarrow> take_fraction s12;
     s14 \<leftarrow> take_lit ''+'' s13;
     (oh, s15) \<leftarrow> take_digits 2 s14;
     (om, s16) \<leftarrow> take_digits 2 (case take_lit '':'' s15 of None \<Rightarrow> s15 | Some t \<Rightarrow> t);
     (if s16 = []
      then Some \<lparr>year = y, month = mo, day = d, hour = h, minute = mi, second = sec,
                 microsecond = us, utcoffset = oh * 3600 + om * 60\<rparr>
      else None)
   }"

definition fromisoformat :: "string \<Rightarrow> error + datetime" where
  "fromisoformat s = (case parse_isoformat s of None \<Rightarrow> Inl ValueError | Some d \<Rightarrow> new_datetime d)"

subsection \<open>\<open>UpgradeEvent\<close>\<close>

record UpgradeEvent =
  gateway_name :: string
  start_time :: datetime
  end_time :: "datetime option"
  version_info :: string
  status :: string

subsection \<open>\<open>LogParser\<close>\<close>

text \<open>
  The state of a \<open>LogParser\<close> object; the compiled patterns are the constants above.
  \<open>upgrades\<close> is the \<open>dict\<close> in insertion order.
\<close>

record LogParser =
  upgrades :: "(string \<times> UpgradeEvent) list"
  overall_start_time :: "datetime option"

definition init_LogParser :: LogParser where
  "init_LogParser = \<lparr>upgrades = [], overall_start_time = None\<rparr>"

text \<open>\<open>d[k] = v\<close>: in place when \<open>k\<close> is present, at the end otherwise.\<close>

fun dict_set :: "'k \<Rightarrow> 'v \<Rightarrow> ('k \<times> 'v) list \<Rightarrow> ('k \<times> 'v) list" where
  "dict_set k v [] = [(k, v)]"
| "dict_set k v (p # ps) = (if fst p = k then (k, v) # ps else p # dict_set k v ps)"

text \<open>\<open>match.group(n)\<close> for \<open>n \<ge> 1\<close>.\<close>

definition match_group :: "string list \<Rightarrow> nat \<Rightarrow> string" where
  "match_group gs n = gs ! (n - 1)"

definition parse_timestamp :: "string \<Rightarrow> error + datetime option" where
  "parse_timestamp line =
     (case re_match timestamp_pattern line of
        None \<Rightarrow> Inr None
      | Some (timestamp_str, gs) \<Rightarrow>
          (case fromisoformat (replace ''+00:00'' ''+0000'' timestamp_str) of
             Inr d \<Rightarrow> Inr (Some d)
           | Inl e \<Rightarrow>
               (if e = ValueError
                then (case fromisoformat timestamp_str of
                        Inr d \<Rightarrow> Inr (Some d)
                      | Inl e' \<Rightarrow> Inl e')
                else Inl e)))"

definition parse_line :: "string \<Rightarrow> LogParser \<Rightarrow> (error + unit) \<times> LogParser" where
  "parse_line raw st =
     (let line = strip raw in
      if line = [] then (Inr (), st)
      else case parse_timestamp line of
        Inl e \<Rightarrow> (Inl e, st)
      | Inr None \<Rightarrow> (Inr (), st)
      | Inr (Some timestamp) \<Rightarrow>
          if re_search overall_start_pattern line \<noteq> None
          then (Inr (), st\<lparr>upgrades := [], overall_start_time := Some timestamp\<rparr>)
          else case re_search upgrade_start_pattern line of
            Some start_match \<Rightarrow>
              (let name = match_group start_match 1;
                   info = strip (match_group start_match 2)
               in (Inr (), st\<lparr>upgrades := dict_set name
                     \<lparr>gateway_name = name, start_time = timestamp, end_time = None,
                      version_info = info, status = ''in_progress''\<rparr> (upgrades st)\<rparr>))
          | None \<Rightarrow>
              (case re_search upgrade_installing_pattern line of
                 Some installing_match \<Rightarrow>
                   (let name = match_group installing_match 1
                    in if map_of (upgrades st) name = None
                       then (Inr (), st\<lparr>upgrades := dict_set name
                              \<lparr>gateway_name = name, start_time = timestamp, end_time = None,
                               version_info = ''(detected from installing status)'',
                               status = ''in_progress''\<rparr> (upgrades st)\<rparr>)
                       else (Inr (), st))
               | None \<Rightarrow>
                   (case re_search upgrade_complete_pattern line of
                      Some complete_match \<Rightarrow>
                        (let name = match_group complete_match 1;
                             curr_version = match_group complete_match 2
                         in case map_of (upgrades st) name of
                              Some u \<Rightarrow>
                                if status u \<noteq> ''complete''
                                then (Inr (), st\<lparr>upgrades := dict_set name
                                       (u\<lparr>end_time := Some timestamp, status := ''complete'',
                                          version_info := version_info u @ '' -> '' @ curr_version\<rparr>)
                                       (upgrades st)\<rparr>)
                                else (Inr (), st)
                            | None \<Rightarrow>
                                (Inr (), st\<lparr>upgrades := dict_set name
                                  \<lparr>gateway_name = name, start_time = timestamp,
                                   end_time = Some timestamp,
                                   version_info = ''(retroactive) -> '' @ curr_version,
                                   status = ''complete''\<rparr> (upgrades st)\<rparr>))
                    | None \<Rightarrow> (Inr (), st))))"

text \<open>The loop of \<open>parse_logs\<close>; an exception of \<open>parse_line\<close> ends it.\<close>

fun parse_lines :: "string list \<Rightarrow> LogParser \<Rightarrow> (error + unit) \<times> LogParser" where
  "parse_lines [] st = (Inr (), st)"
| "parse_lines (l # ls) st =
     (case parse_line l st of
        (Inl e, st') \<Rightarrow> (Inl e, st')
      | (Inr u, st') \<Rightarrow> parse_lines ls st')"

text \<open>
  \<open>sorted(self.upgrades.values(), key=lambda x: x.start_time)\<close>: a stable sort on the
  instants of the start times.
\<close>

definition start_key :: "UpgradeEvent \<Rightarrow> int" where
  "start_key x = utc_us (start_time x)"

definition finalize :: "LogParser \<Rightarrow> UpgradeEvent list" where
  "finalize st = sort_key start_key (map snd (upgrades st))"

definition parse_logs ::
  "string list \<Rightarrow> LogParser \<Rightarrow> (error + UpgradeEvent list) \<times> LogParser" where
  "parse_logs input_stream st =
     (case parse_lines input_stream st of
        (Inl e, st') \<Rightarrow> (Inl e, st')
      | (Inr u, st') \<Rightarrow> (Inr (finalize st'), st'))"

subsection \<open>\<open>calculate_upgrade_stats\<close>\<close>

text \<open>
  The function only prints; the model returns what it prints: either the message
  \<open>No completed upgrades found for statistics\<close> or the numbers of the report.
  A division by a computed divisor is \<open>py_div\<close>, which raises on zero.
\<close>

definition py_div :: "real \<Rightarrow> real \<Rightarrow> error + real" where
  "py_div a b = (if b = 0 then Inl ZeroDivisionError else Inr (a / b))"

record stats =
  total_upgrades :: nat
  completed_count :: nat
  in_progress_count :: nat
  durations_minutes :: "real list"
  min_duration :: real
  max_duration :: real
  avg_duration :: real
  std_deviation :: real
  min_gateway :: string
  max_gateway :: string
  distribution :: "(string \<times> nat \<times> real) list"

datatype report = No_completed_upgrades | Statistics stats

text \<open>\<open>buckets\<close>; \<open>None\<close> is \<open>float('inf')\<close>.\<close>

definition buckets :: "real option list" where
  "buckets = [Some 0, Some 2, Some 5, Some 10, Some 15, Some 30, Some 60, None]"

definition bucket_labels :: "string list" where
  "bucket_labels = [''<2m'', ''2-5m'', ''5-10m'', ''10-15m'', ''15-30m'', ''30-60m'', ''>60m'']"

text \<open>The inner loop over \<open>enumerate(buckets[1:])\<close>: the first index whose bound is not exceeded.\<close>

fun bucket_index :: "real \<Rightarrow> real option list \<Rightarrow> nat \<Rightarrow> nat option" where
  "bucket_index duration [] i = None"
| "bucket_index duration (bucket_max # rest) i =
     (if (case bucket_max of None \<Rightarrow> True | Some m \<Rightarrow> duration \<le> m) then Some i
      else bucket_index duration rest (Suc i))"

definition bucket_counts :: "real list \<Rightarrow> nat list" where
  "bucket_counts durations =
     foldl (\<lambda>cs duration.
              case bucket_index duration (tl buckets) 0 of
                None \<Rightarrow> cs
              | Some i \<Rightarrow> cs[i := cs ! i + 1])
           (replicate (length bucket_labels) 0) durations"

definition calculate_upgrade_stats :: "UpgradeEvent list \<Rightarrow> error + report" where
  "calculate_upgrade_stats events =
     (let completed_upgrades = filter (\<lambda>u. end_time u \<noteq> None) events;
          upgrade_durations =
            List.map_filter
              (\<lambda>u. case end_time u of
                      None \<Rightarrow> None
                    | Some e \<Rightarrow> Some (gateway_name u, total_seconds (dt_sub e (start_time u)) / 60))
              events;
          durations = map snd upgrade_durations
      in case upgrade_durations of
           [] \<Rightarrow> Inr No_completed_upgrades
         | p # ps \<Rightarrow>
             (case py_div (sum_list durations) (real (length durations)) of
                Inl e \<Rightarrow> Inl e
              | Inr avg \<Rightarrow>
                  (case py_div (sum_list (map (\<lambda>d. (d - avg) ^ 2) durations))
                               (real (length durations)) of
                     Inl e \<Rightarrow> Inl e
                   | Inr variance \<Rightarrow>
                       Inr (Statistics
                         \<lparr>total_upgrades = length events,
                          completed_count = length completed_upgrades,
                          in_progress_count = length events - length completed_upgrades,
                          durations_minutes = durations,
                          min_duration = py_min id (snd p) (map snd ps),
                          max_duration = py_max id (snd p) (map snd ps),
                          avg_duration = avg,
                          std_deviation = sqrt variance,
                          min_gateway = fst (py_min snd p ps),
                          max_gateway = fst (py_max snd p ps),
                          distribution =
                            map (\<lambda>(label, count).
                                   (label, count,
                                    if durations \<noteq> []
                                    then real count / real (length durations) * 100 else 0))
                                (zip bucket_labels (bucket_counts durations))\<rparr>))))"

subsection \<open>\<open>SVGGanttChart\<close>\<close>

record SVGGanttChart =
  base_width :: int
  base_height :: int

text \<open>The default arguments of \<open>__init__\<close>, which \<open>main\<close> uses.\<close>

definition init_SVGGanttChart :: SVGGanttChart where
  "init_SVGGanttChart = \<lparr>base_width = 1200, base_height = 800\<rparr>"

definition margin_top :: int where "margin_top = 60"
definition margin_right :: int where "margin_right = 50"
definition margin_bottom :: int where "margin_bottom = 80"
definition margin_left :: int where "margin_left = 200"

definition colors :: "(string \<times> string) list" where
  "colors = [(''complete'', ''#28a745''), (''in_progress'', ''#ffc107''), (''error'', ''#dc3545'')]"

definition color :: "string \<Rightarrow> string" where
  "color k = (case map_of colors k of Some c \<Rightarrow> c | None \<Rightarrow> [])"

record bar =
  bar_label :: string
  bar_x :: real
  bar_y :: real
  bar_width :: real
  bar_height :: int
  bar_fill :: string

record chart =
  width :: int
  height :: int
  chart_width :: int
  chart_height :: int
  min_time :: datetime
  max_time :: datetime
  total_duration :: real
  ticks :: "(real \<times> string) list"
  bars :: "bar list"

datatype scene = Empty_chart | Chart chart

text \<open>
  The time range of \<open>generate_chart\<close> (the statements from \<open>start_times = ...\<close> to
  \<open>max_time = max(end_times)\<close>). \<open>min\<close> of an empty sequence is a \<open>ValueError\<close>.
\<close>

definition time_range :: "UpgradeEvent list \<Rightarrow> error + (datetime \<times> datetime)" where
  "time_range events =
     (let start_times = map start_time events;
          end_times = List.map_filter end_time events
      in case start_times of
           [] \<Rightarrow> Inl ValueError
         | s # ss \<Rightarrow>
             (case end_times of
                [] \<Rightarrow>
                  (let min_t = py_min utc_us s ss;
                       max_t = py_max utc_us s ss;
                       time_span = dt_sub max_t min_t
                   in if total_seconds time_span = 0
                      then (case replace_second min_t (second min_t + 60) of
                              Inl e \<Rightarrow> Inl e
                            | Inr m \<Rightarrow> Inr (min_t, m))
                      else Inr (min_t, max_t))
              | e # es \<Rightarrow> Inr (py_min utc_us s ss, py_max utc_us e es)))"

text \<open>
  \<open>timedelta(seconds=x)\<close> rounds \<open>x\<close> to the nearest microsecond, ties to even.
\<close>

definition round_half_even :: "real \<Rightarrow> int" where
  "round_half_even x =
     (let f = \<lfloor>x\<rfloor>; r = x - of_int f
      in if r < 1 / 2 then f else if 1 / 2 < r then f + 1 else if even f then f else f + 1)"

text \<open>
  \<open>d + timedelta\<close>: the local clock moves; a date outside years 1 to 9999 is an
  \<open>OverflowError\<close>. The sum is kept as microseconds on the local clock, from which
  \<open>strftime('%H:%M:%S')\<close> reads the time of day.
\<close>

definition dt_add :: "datetime \<Rightarrow> int \<Rightarrow> error + int" where
  "dt_add d td =
     (let t = local_us d + td; ordinal = t div (86400 * 1000000)
      in if 1 \<le> ordinal \<and> ordinal \<le> MAXORDINAL then Inr t else Inl OverflowError)"

definition two_digits :: "int \<Rightarrow> string" where
  "two_digits n = [char_of (48 + n div 10), char_of (48 + n mod 10)]"

definition strftime_HMS :: "int \<Rightarrow> string" where
  "strftime_HMS t =
     (let secs = (t div 1000000) mod 86400
      in two_digits (secs div 3600) @ '':'' @ two_digits ((secs mod 3600) div 60) @ '':''
         @ two_digits (secs mod 60))"

text \<open>
  One tick of \<open>_draw_time_axis\<close>: its position and its label. The offset of the tick
  is computed exactly here and in binary floating point in the code, so a label can
  differ by one second where the exact offset falls on a boundary between two
  microseconds or two seconds; the same holds for a date at the very end of year 9999.
\<close>

definition draw_tick :: "int \<Rightarrow> datetime \<Rightarrow> real \<Rightarrow> nat \<Rightarrow> error + (real \<times> string)" where
  "draw_tick cw min_t dur i =
     (let x_pos = (real i / 8) * real_of_int cw;
          time_offset = (real i / 8) * dur
      in case replace_microsecond min_t 0 of
           Inl e \<Rightarrow> Inl e
         | Inr m \<Rightarrow>
             (case dt_add m (round_half_even (time_offset * 1000000)) of
                Inl e \<Rightarrow> Inl e
              | Inr tick_time \<Rightarrow> Inr (x_pos, strftime_HMS tick_time)))"

fun draw_ticks :: "int \<Rightarrow> datetime \<Rightarrow> real \<Rightarrow> nat list \<Rightarrow> error + (real \<times> string) list" where
  "draw_ticks cw min_t dur [] = Inr []"
| "draw_ticks cw min_t dur (i # is) =
     (case draw_tick cw min_t dur i of
        Inl e \<Rightarrow> Inl e
      | Inr t \<Rightarrow>
          (case draw_ticks cw min_t dur is of
             Inl e \<Rightarrow> Inl e
           | Inr ts \<Rightarrow> Inr (t # ts)))"

definition draw_time_axis :: "int \<Rightarrow> datetime \<Rightarrow> real \<Rightarrow> error + (real \<times> string) list" where
  "draw_time_axis cw min_t dur = (let num_ticks = 8 in draw_ticks cw min_t dur [0 ..< num_ticks + 1])"

text \<open>The body of the loop over \<open>enumerate(upgrades)\<close>: the label and the rectangle.\<close>

definition draw_bar :: "int \<Rightarrow> datetime \<Rightarrow> real \<Rightarrow> int \<Rightarrow> real \<Rightarrow> nat \<times> UpgradeEvent \<Rightarrow> bar" where
  "draw_bar cw min_t dur bh y_step iu =
     (let i = fst iu; upgrade = snd iu;
          y_pos = real i * y_step + (y_step - real_of_int bh) / 2;
          start_offset = total_seconds (dt_sub (start_time upgrade) min_t);
          x_pos = (start_offset / dur) * real_of_int cw;
          name = gateway_name upgrade
      in \<lparr>bar_label = (if length name > 25 then take 22 name @ ''...'' else name),
          bar_x = x_pos,
          bar_y = y_pos,
          bar_width =
            (case end_time upgrade of
               Some e \<Rightarrow>
                 max 2 ((total_seconds (dt_sub e (start_time upgrade)) / dur) * real_of_int cw)
             | None \<Rightarrow> real_of_int cw - x_pos),
          bar_height = bh,
          bar_fill =
            (case end_time upgrade of
               Some e \<Rightarrow> color ''complete''
             | None \<Rightarrow> color ''in_progress'')\<rparr>)"

text \<open>
  \<open>generate_chart\<close>, in the order of the method: the dimensions of the canvas and of
  the plot area, the time range and the duration it spans, the time axis, the bars.
  The attributes the method stores in \<open>self\<close> (\<open>height\<close>, \<open>width\<close>, \<open>chart_width\<close>,
  \<open>chart_height\<close>) are fields of the chart it returns.
\<close>

definition canvas_height :: "SVGGanttChart \<Rightarrow> nat \<Rightarrow> int" where
  "canvas_height self n =
     (let min_bar_height = 20;
          min_spacing = 2;
          total_bar_space = int n * (min_bar_height + min_spacing)
      in max (base_height self) (total_bar_space + margin_top + margin_bottom + 100))"

definition plot_width :: "SVGGanttChart \<Rightarrow> int" where
  "plot_width self = base_width self - margin_left - margin_right"

definition plot_height :: "SVGGanttChart \<Rightarrow> nat \<Rightarrow> int" where
  "plot_height self n = canvas_height self n - margin_top - margin_bottom"

definition duration_or_default :: "datetime \<Rightarrow> datetime \<Rightarrow> real" where
  "duration_or_default min_t max_t =
     (let d = total_seconds (dt_sub max_t min_t) in if d = 0 then 3600 else d)"

definition draw_bars :: "int \<Rightarrow> int \<Rightarrow> datetime \<Rightarrow> real \<Rightarrow> UpgradeEvent list \<Rightarrow> bar list" where
  "draw_bars cw ch min_t dur events =
     (let min_bar_height = 20;
          min_spacing = 2;
          bh = max min_bar_height (min 25 (ch div int (length events) - 2));
          y_step = max (real_of_int (bh + min_spacing)) (real_of_int ch / real (length events))
      in map (draw_bar cw min_t dur bh y_step) (zip [0 ..< length events] events))"

definition generate_chart :: "SVGGanttChart \<Rightarrow> UpgradeEvent list \<Rightarrow> error + scene" where
  "generate_chart self events =
     (if events = [] then Inr Empty_chart
      else case time_range events of
             Inl e \<Rightarrow> Inl e
           | Inr (min_t, max_t) \<Rightarrow>
               (case draw_time_axis (plot_width self) min_t (duration_or_default min_t max_t) of
                  Inl e \<Rightarrow> Inl e
                | Inr axis \<Rightarrow>
                    Inr (Chart
                      \<lparr>width = base_width self,
                       height = canvas_height self (length events),
                       chart_width = plot_width self,
                       chart_height = plot_height self (length events),
                       min_time = min_t, max_time = max_t,
                       total_duration = duration_or_default min_t max_t,
                       ticks = axis,
                       bars = draw_bars (plot_width self) (plot_height self (length events))
                                min_t (duration_or_default min_t max_t) events\<rparr>)))"

section \<open>Inputs and predicates used in the statements\<close>

text \<open>
  Which branch of \<open>parse_line\<close> a line takes, read off the conditions of the method in
  their order: the timestamp parses, and the first pattern that matches is the one named.
\<close>

definition is_reset_line :: "string \<Rightarrow> datetime \<Rightarrow> bool" where
  "is_reset_line raw ts =
     (parse_timestamp (strip raw) = Inr (Some ts) \<and>
      re_search overall_start_pattern (strip raw) \<noteq> None)"

definition is_start_line :: "string \<Rightarrow> datetime \<Rightarrow> string \<Rightarrow> string \<Rightarrow> bool" where
  "is_start_line raw ts name info =
     (parse_timestamp (strip raw) = Inr (Some ts) \<and>
      re_search overall_start_pattern (strip raw) = None \<and>
      map_option (\<lambda>gs. (match_group gs 1, strip (match_group gs 2)))
        (re_search upgrade_start_pattern (strip raw)) = Some (name, info))"

definition is_completion_line :: "string \<Rightarrow> datetime \<Rightarrow> string \<Rightarrow> string \<Rightarrow> bool" where
  "is_completion_line raw ts name curr_version =
     (parse_timestamp (strip raw) = Inr (Some ts) \<and>
      re_search overall_start_pattern (strip raw) = None \<and>
      re_search upgrade_start_pattern (strip raw) = None \<and>
      re_search upgrade_installing_pattern (strip raw) = None \<and>
      map_option (\<lambda>gs. (match_group gs 1, match_group gs 2))
        (re_search upgrade_complete_pattern (strip raw)) = Some (name, curr_version))"

text \<open>What a \<open>dict\<close> keyed by gateway name guarantees: one entry per key, filed under its own name.\<close>

definition dict_ok :: "(string \<times> UpgradeEvent) list \<Rightarrow> bool" where
  "dict_ok d = (distinct (map fst d) \<and> list_all (\<lambda>p. gateway_name (snd p) = fst p) d)"

text \<open>The time domain of a chart, when \<open>generate_chart\<close> returned one.\<close>

definition scene_time_domain :: "error + scene \<Rightarrow> (datetime \<times> datetime) option" where
  "scene_time_domain r =
     (case r of Inr (Chart c) \<Rightarrow> Some (min_time c, max_time c) | _ \<Rightarrow> None)"

text \<open>The two lines of the end-to-end example of the specification, and their timestamps.\<close>

definition example_start_line :: string where
  "example_start_line =
     ''2025-07-23T00:00:05.100000+00:00 Upgrading gw-1 to version 8.1.0-1000.1500''"

definition example_complete_line :: string where
  "example_complete_line =
     ''2025-07-23T00:05:05.200000+00:00 Updating upgrade_info to gw gw-1: {'status': 'complete', 'curr_ver': '8.1.0-1000.1600', ...}''"

definition example_t0 :: datetime where
  "example_t0 = \<lparr>year = 2025, month = 7, day = 23, hour = 0, minute = 0, second = 5,
                  microsecond = 100000, utcoffset = 0\<rparr>"

definition example_t1 :: datetime where
  "example_t1 = \<lparr>year = 2025, month = 7, day = 23, hour = 0, minute = 5, second = 5,
                  microsecond = 200000, utcoffset = 0\<rparr>"

definition example_record :: UpgradeEvent where
  "example_record =
     \<lparr>gateway_name = ''gw-1'', start_time = example_t0, end_time = Some example_t1,
      version_info = ''8.1.0-1000.1500 -> 8.1.0-1000.1600'', status = ''complete''\<rparr>"

text \<open>A reset line, and a line whose timestamp has the shape of one but names month 13.\<close>

definition example_reset_line :: string where
  "example_reset_line =
     ''2025-07-23T00:00:00.000000+00:00 Upgrading gateways without controller upgrade...''"

definition bad_month_line :: string where
  "bad_month_line = ''2025-13-01T00:00:00.000000+00:00 Upgrading gw-1 to version 8.1.0''"

text \<open>Records still in progress: \<open>gw-1\<close> started at \<open>example_t0\<close>, \<open>gw-2\<close> ten seconds later.\<close>

definition open_event :: UpgradeEvent where
  "open_event =
     \<lparr>gateway_name = ''gw-1'', start_time = example_t0, end_time = None,
      version_info = ''8.1.0'', status = ''in_progress''\<rparr>"

definition example_t2 :: datetime where
  "example_t2 = \<lparr>year = 2025, month = 7, day = 23, hour = 0, minute = 0, second = 15,
                  microsecond = 100000, utcoffset = 0\<rparr>"

definition later_open_event :: UpgradeEvent where
  "later_open_event =
     \<lparr>gateway_name = ''gw-2'', start_time = example_t2, end_time = None,
      version_info = ''8.1.0'', status = ''in_progress''\<rparr>"

text \<open>
  A second generation: a reset and a start for \<open>gw-2\<close> ten minutes later; and a start
  for \<open>gw-0\<close> with the timestamp of \<open>example_start_line\<close>.
\<close>

definition later_reset_line :: string where
  "later_reset_line =
     ''2025-07-23T00:10:00.000000+00:00 Upgrading gateways without controller upgrade...''"

definition later_start_line :: string where
  "later_start_line =
     ''2025-07-23T00:10:05.000000+00:00 Upgrading gw-2 to version 8.1.0-1000.1600''"

definition tied_start_line :: string where
  "tied_start_line =
     ''2025-07-23T00:00:05.100000+00:00 Upgrading gw-0 to version 8.1.0-1000.1500''"

text \<open>
  What a line does to the set of unit ids in \<open>upgrades\<close>, read off the branches of
  \<open>parse_line\<close>: nothing, empty it, or make sure the unit it names has a record.
  \<open>after_last_reset\<close> is the part of the input that follows its last reset marker (all
  of it when there is none); \<open>units_in_order\<close> lists the units that the lines name, each
  once, in the order of their first line, after the ones already known.
\<close>

datatype line_class = Skipped | Reset_marker | Unit_marker string

definition classify :: "string \<Rightarrow> line_class" where
  "classify raw =
     (let line = strip raw in
      if line = [] then Skipped
      else case parse_timestamp line of
        Inl e \<Rightarrow> Skipped
      | Inr None \<Rightarrow> Skipped
      | Inr (Some timestamp) \<Rightarrow>
          if re_search overall_start_pattern line \<noteq> None then Reset_marker
          else case re_search upgrade_start_pattern line of
            Some start_match \<Rightarrow> Unit_marker (match_group start_match 1)
          | None \<Rightarrow>
              (case re_search upgrade_installing_pattern line of
                 Some installing_match \<Rightarrow> Unit_marker (match_group installing_match 1)
               | None \<Rightarrow>
                   (case re_search upgrade_complete_pattern line of
                      Some complete_match \<Rightarrow> Unit_marker (match_group complete_match 1)
                    | None \<Rightarrow> Skipped)))"

definition unit_of :: "string \<Rightarrow> string option" where
  "unit_of raw = (case classify raw of Unit_marker n \<Rightarrow> Some n | _ \<Rightarrow> None)"

definition is_reset :: "string \<Rightarrow> bool" where
  "is_reset raw = (classify raw = Reset_marker)"

definition after_last_reset :: "string list \<Rightarrow> string list" where
  "after_last_reset ls = rev (takeWhile (\<lambda>l. \<not> is_reset l) (rev ls))"

definition note_unit :: "string list \<Rightarrow> string \<Rightarrow> string list" where
  "note_unit ks n = (if n \<in> set ks then ks else ks @ [n])"

definition units_in_order :: "string list \<Rightarrow> string list \<Rightarrow> string list" where
  "units_in_order known ls = foldl note_unit known (List.map_filter unit_of ls)"

definition key_step :: "string list \<Rightarrow> string \<Rightarrow> string list" where
  "key_step ks raw =
     (case classify raw of Skipped \<Rightarrow> ks | Reset_marker \<Rightarrow> [] | Unit_marker n \<Rightarrow> note_unit ks n)"

text \<open>The first line of the example, written after one blank.\<close>

definition indented_start_line :: string where
  "indented_start_line =
     '' 2025-07-23T00:00:05.100000+00:00 Upgrading gw-1 to version 8.1.0-1000.1500''"

section \<open>Properties\<close>

subsection \<open>Lines without a timestamp, and timestamps that do not parse\<close>

lemma parse_timestamp_Nil: "parse_timestamp [] = Inr None"
  by code_simp

lemma timestamp_nonempty: "parse_timestamp line = Inr (Some ts) \<Longrightarrow> line \<noteq> []"
  using parse_timestamp_Nil by auto

text \<open>
  Claim C1. \<open>parse_line\<close> is claimed never to raise, also on a line whose timestamp has
  the right digits but names no date. On \<open>bad_month_line\<close> both calls of
  \<open>fromisoformat\<close> raise \<open>ValueError\<close>; the second one is outside the \<open>try\<close>, so the
  exception leaves \<open>parse_line\<close>.
\<close>

theorem parse_line_raises_on_invalid_date:
  "parse_line bad_month_line init_LogParser = (Inl ValueError, init_LogParser)"
  unfolding bad_month_line_def by code_simp

text \<open>
  Claim C9. A line that does not begin with a timestamp is claimed to leave the state as
  it was. \<open>parse_line\<close> strips the line before it looks for the timestamp: the line
  \<open>indented_start_line\<close> begins with a blank, the timestamp pattern does not match it,
  and \<open>parse_line\<close> creates the record of \<open>gw-1\<close> from it.
\<close>

theorem parse_line_strips_before_timestamp:
  "re_match timestamp_pattern indented_start_line = None \<and>
   parse_timestamp indented_start_line = Inr None \<and>
   parse_line indented_start_line init_LogParser =
     (Inr (),
      \<lparr>upgrades =
         [(''gw-1'', \<lparr>gateway_name = ''gw-1'', start_time = example_t0, end_time = None,
                      version_info = ''8.1.0-1000.1500'', status = ''in_progress''\<rparr>)],
       overall_start_time = None\<rparr>) \<and>
   snd (parse_line indented_start_line init_LogParser) \<noteq> init_LogParser"
  unfolding indented_start_line_def example_t0_def
  by code_simp

text \<open>
  Claim C9, as the code has it. A line that, once stripped of surrounding whitespace,
  lacks a leading timestamp leaves the state of the parser as it was: when the timestamp
  pattern does not match the stripped line, \<open>parse_line\<close> returns and the state is
  unchanged; more generally the state is unchanged whenever \<open>parse_timestamp\<close> yields
  no \<open>datetime\<close> for the stripped line, whether it returns \<open>None\<close> or raises.
\<close>

theorem parse_line_without_timestamp_keeps_state:
  "(re_match timestamp_pattern (strip raw) = None \<longrightarrow> parse_line raw st = (Inr (), st)) \<and>
   ((\<forall>ts. parse_timestamp (strip raw) \<noteq> Inr (Some ts)) \<longrightarrow> snd (parse_line raw st) = st)"
  unfolding parse_line_def Let_def parse_timestamp_def
  by (auto split: sum.splits option.splits prod.splits)

theorem parse_line_without_timestamp_keeps_state_witness:
  "re_match timestamp_pattern (strip ''Upgrading gw-9 to version 8.1.0'') = None \<and>
   parse_line ''Upgrading gw-9 to version 8.1.0'' \<lparr>upgrades = [(''gw-1'', open_event)],
       overall_start_time = Some example_t0\<rparr>
     = (Inr (), \<lparr>upgrades = [(''gw-1'', open_event)], overall_start_time = Some example_t0\<rparr>) \<and>
   (\<forall>ts. parse_timestamp (strip bad_month_line) \<noteq> Inr (Some ts)) \<and>
   snd (parse_line bad_month_line \<lparr>upgrades = [(''gw-1'', open_event)],
       overall_start_time = Some example_t0\<rparr>)
     = \<lparr>upgrades = [(''gw-1'', open_event)], overall_start_time = Some example_t0\<rparr>"
proof -
  have h1: "re_match timestamp_pattern (strip ''Upgrading gw-9 to version 8.1.0'') = None"
    by code_simp
  have "parse_timestamp (strip bad_month_line) = Inl ValueError"
    unfolding bad_month_line_def by code_simp
  then have h2: "\<forall>ts. parse_timestamp (strip bad_month_line) \<noteq> Inr (Some ts)"
    by simp
  show ?thesis
    using h1 h2
      parse_line_without_timestamp_keeps_state
        [of "''Upgrading gw-9 to version 8.1.0''"
            "\<lparr>upgrades = [(''gw-1'', open_event)], overall_start_time = Some example_t0\<rparr>"]
      parse_line_without_timestamp_keeps_state
        [of bad_month_line
            "\<lparr>upgrades = [(''gw-1'', open_event)], overall_start_time = Some example_t0\<rparr>"]
    by blast
qed

subsection \<open>The branches of \<open>parse_line\<close>\<close>

lemma dict_set_absent: "map_of d k = None \<Longrightarrow> dict_set k v d = d @ [(k, v)]"
  by (induction d) (auto split: if_splits)

lemma map_of_dict_set: "map_of (dict_set k v d) k' = (if k' = k then Some v else map_of d k')"
  by (induction d) auto

lemma parse_line_reset:
  assumes "is_reset_line raw ts"
  shows "parse_line raw st = (Inr (), st\<lparr>upgrades := [], overall_start_time := Some ts\<rparr>)"
  using assms timestamp_nonempty[of "strip raw" ts]
  unfolding is_reset_line_def parse_line_def Let_def by auto

lemma parse_line_start:
  assumes "is_start_line raw ts name info"
  shows "parse_line raw st =
     (Inr (), st\<lparr>upgrades := dict_set name
        \<lparr>gateway_name = name, start_time = ts, end_time = None, version_info = info,
         status = ''in_progress''\<rparr> (upgrades st)\<rparr>)"
  using assms timestamp_nonempty[of "strip raw" ts]
  unfolding is_start_line_def parse_line_def Let_def by auto

lemma parse_line_completion:
  assumes "is_completion_line raw ts name v"
  shows "parse_line raw st =
     (case map_of (upgrades st) name of
        Some u \<Rightarrow>
          if status u \<noteq> ''complete''
          then (Inr (), st\<lparr>upgrades := dict_set name
                 (u\<lparr>end_time := Some ts, status := ''complete'',
                    version_info := version_info u @ '' -> '' @ v\<rparr>) (upgrades st)\<rparr>)
          else (Inr (), st)
      | None \<Rightarrow>
          (Inr (), st\<lparr>upgrades := dict_set name
             \<lparr>gateway_name = name, start_time = ts, end_time = Some ts,
              version_info = ''(retroactive) -> '' @ v, status = ''complete''\<rparr> (upgrades st)\<rparr>))"
  using assms timestamp_nonempty[of "strip raw" ts]
  unfolding is_completion_line_def parse_line_def Let_def by (auto split: option.splits)

lemma example_complete_line_is_completion:
  "is_completion_line example_complete_line example_t1 ''gw-1'' ''8.1.0-1000.1600''"
  unfolding example_complete_line_def example_t1_def by code_simp

lemma example_start_line_is_start:
  "is_start_line example_start_line example_t0 ''gw-1'' ''8.1.0-1000.1500''"
  unfolding example_start_line_def example_t0_def by code_simp

lemma example_reset_line_is_reset:
  "is_reset_line example_reset_line
     \<lparr>year = 2025, month = 7, day = 23, hour = 0, minute = 0, second = 0,
      microsecond = 0, utcoffset = 0\<rparr>"
  unfolding example_reset_line_def by code_simp

text \<open>
  Claim C7. A completion line for a unit that has no record creates one at the end of
  the \<open>dict\<close>: \<open>start_time\<close> and \<open>end_time\<close> are both the timestamp of the line, the
  status is \<open>complete\<close> and the note starts with \<open>(retroactive)\<close>. Nothing else changes.
\<close>

theorem completion_without_start_is_retroactive:
  assumes "is_completion_line raw ts name v" and "map_of (upgrades st) name = None"
  shows "parse_line raw st =
     (Inr (), st\<lparr>upgrades := upgrades st @
        [(name, \<lparr>gateway_name = name, start_time = ts, end_time = Some ts,
                 version_info = ''(retroactive) -> '' @ v, status = ''complete''\<rparr>)]\<rparr>)"
  using assms by (simp add: parse_line_completion dict_set_absent)

theorem completion_without_start_is_retroactive_witness:
  "is_completion_line example_complete_line example_t1 ''gw-1'' ''8.1.0-1000.1600'' \<and>
   map_of (upgrades init_LogParser) ''gw-1'' = None \<and>
   parse_line example_complete_line init_LogParser =
     (Inr (),
      \<lparr>upgrades =
         [(''gw-1'', \<lparr>gateway_name = ''gw-1'', start_time = example_t1,
                      end_time = Some example_t1,
                      version_info = ''(retroactive) -> 8.1.0-1000.1600'',
                      status = ''complete''\<rparr>)],
       overall_start_time = None\<rparr>)"
proof -
  have h: "map_of (upgrades init_LogParser) ''gw-1'' = None"
    by (simp add: init_LogParser_def)
  show ?thesis
    using h example_complete_line_is_completion
      completion_without_start_is_retroactive[OF example_complete_line_is_completion h]
    by (simp add: init_LogParser_def)
qed

text \<open>
  Claim C8. A reset line empties \<open>upgrades\<close> and stores its timestamp in
  \<open>overall_start_time\<close>, whatever the state held; a start line that follows leaves
  exactly one record, the one it names.
\<close>

theorem reset_clears_then_start_gives_one:
  assumes "is_reset_line r ts" and "is_start_line s ts' name info"
  shows "parse_line r st = (Inr (), st\<lparr>upgrades := [], overall_start_time := Some ts\<rparr>) \<and>
         upgrades (snd (parse_line s (snd (parse_line r st)))) =
           [(name, \<lparr>gateway_name = name, start_time = ts', end_time = None,
                    version_info = info, status = ''in_progress''\<rparr>)] \<and>
         length (upgrades (snd (parse_line s (snd (parse_line r st))))) = 1"
  using assms by (simp add: parse_line_reset parse_line_start)

theorem reset_clears_then_start_gives_one_witness:
  "is_reset_line example_reset_line
     \<lparr>year = 2025, month = 7, day = 23, hour = 0, minute = 0, second = 0,
      microsecond = 0, utcoffset = 0\<rparr> \<and>
   is_start_line example_start_line example_t0 ''gw-1'' ''8.1.0-1000.1500'' \<and>
   upgrades (snd (parse_line example_reset_line
      \<lparr>upgrades = [(''gw-1'', example_record), (''gw-2'', later_open_event)],
       overall_start_time = None\<rparr>)) = [] \<and>
   length (upgrades (snd (parse_line example_start_line (snd (parse_line example_reset_line
      \<lparr>upgrades = [(''gw-1'', example_record), (''gw-2'', later_open_event)],
       overall_start_time = None\<rparr>))))) = 1"
proof -
  let ?st = "\<lparr>upgrades = [(''gw-1'', example_record), (''gw-2'', later_open_event)],
             overall_start_time = None\<rparr>"
  note t = reset_clears_then_start_gives_one
             [OF example_reset_line_is_reset example_start_line_is_start, of ?st]
  from t have c1: "upgrades (snd (parse_line example_reset_line ?st)) = []"
    by simp
  from t have c2: "length (upgrades (snd (parse_line example_start_line
                      (snd (parse_line example_reset_line ?st))))) = 1"
    by blast
  show ?thesis
    using example_reset_line_is_reset example_start_line_is_start c1 c2 by blast
qed

text \<open>
  Claim C6. A completion line for a unit whose record is already complete changes
  nothing, and feeding a completion line a second time changes nothing any more: the
  state after two calls, hence every field of the record, is the state after one.
\<close>

theorem completion_twice_is_once:
  assumes "is_completion_line raw ts name v"
  shows "(\<forall>u. map_of (upgrades st) name = Some u \<and> status u = ''complete''
            \<longrightarrow> parse_line raw st = (Inr (), st)) \<and>
         parse_line raw (snd (parse_line raw st)) = parse_line raw st"
proof (intro conjI allI impI)
  fix u assume "map_of (upgrades st) name = Some u \<and> status u = ''complete''"
  then show "parse_line raw st = (Inr (), st)"
    using assms by (simp add: parse_line_completion)
next
  show "parse_line raw (snd (parse_line raw st)) = parse_line raw st"
  proof (cases "map_of (upgrades st) name")
    case None
    then show ?thesis
      using assms by (simp add: parse_line_completion map_of_dict_set)
  next
    case (Some u)
    then show ?thesis
      using assms
      by (cases "status u = ''complete''") (simp_all add: parse_line_completion map_of_dict_set)
  qed
qed

theorem completion_twice_is_once_witness:
  "is_completion_line example_complete_line example_t1 ''gw-1'' ''8.1.0-1000.1600'' \<and>
   map_of (upgrades \<lparr>upgrades = [(''gw-1'', example_record)], overall_start_time = None\<rparr>)
     ''gw-1'' = Some example_record \<and>
   status example_record = ''complete'' \<and>
   parse_line example_complete_line
       \<lparr>upgrades = [(''gw-1'', example_record)], overall_start_time = None\<rparr>
     = (Inr (), \<lparr>upgrades = [(''gw-1'', example_record)], overall_start_time = None\<rparr>) \<and>
   parse_line example_complete_line
       (snd (parse_line example_complete_line
          \<lparr>upgrades = [(''gw-1'', open_event)], overall_start_time = None\<rparr>))
     = parse_line example_complete_line
         \<lparr>upgrades = [(''gw-1'', open_event)], overall_start_time = None\<rparr>"
proof -
  have h: "map_of (upgrades \<lparr>upgrades = [(''gw-1'', example_record)], overall_start_time = None\<rparr>)
     ''gw-1'' = Some example_record \<and> status example_record = ''complete''"
    by (simp add: example_record_def)
  show ?thesis
    using h example_complete_line_is_completion
      completion_twice_is_once[OF example_complete_line_is_completion,
        of "\<lparr>upgrades = [(''gw-1'', example_record)], overall_start_time = None\<rparr>"]
      completion_twice_is_once[OF example_complete_line_is_completion,
        of "\<lparr>upgrades = [(''gw-1'', open_event)], overall_start_time = None\<rparr>"]
    by blast
qed

subsection \<open>Statistics without completed upgrades\<close>

lemma map_filter_all_None: "\<forall>x\<in>set xs. f x = None \<Longrightarrow> List.map_filter f xs = []"
  by (induction xs) (auto simp: List.map_filter_simps)

lemma stats_never_divides_by_zero: "calculate_upgrade_stats events \<noteq> Inl ZeroDivisionError"
  unfolding calculate_upgrade_stats_def Let_def py_div_def
  by (auto split: list.splits sum.splits if_splits)

text \<open>
  Claim C10. When no record has an \<open>end_time\<close>, \<open>calculate_upgrade_stats\<close> reports that
  there are no completed upgrades and returns: no statistic is computed and no division
  takes place.
\<close>

theorem stats_without_completed_upgrades:
  "(\<forall>u\<in>set events. end_time u = None) \<Longrightarrow>
   calculate_upgrade_stats events = Inr No_completed_upgrades"
  unfolding calculate_upgrade_stats_def Let_def
  by (simp add: map_filter_all_None)

theorem stats_without_completed_upgrades_witness:
  "end_time open_event = None \<and> end_time later_open_event = None \<and>
   calculate_upgrade_stats [open_event, later_open_event] = Inr No_completed_upgrades"
proof -
  have h: "\<forall>u\<in>set [open_event, later_open_event]. end_time u = None"
    by (simp add: open_event_def later_open_event_def)
  show ?thesis
    using h stats_without_completed_upgrades[OF h] by simp
qed

subsection \<open>The time range of the chart\<close>

text \<open>
  Claim C2. A chart is claimed for every non-empty sequence with a zero-width time
  domain, such as a single record without \<open>end_time\<close>. On \<open>[open_event]\<close> the span of
  the start times is zero and the code calls \<open>replace(second=min_time.second + 60)\<close>,
  whose argument is never below 60: \<open>ValueError\<close>.
\<close>

theorem generate_chart_raises_on_single_open_record:
  "generate_chart init_SVGGanttChart [open_event] = Inl ValueError"
  unfolding open_event_def example_t0_def by code_simp

lemma replace_second_plus_60: "fields_ok d \<Longrightarrow> replace_second d (second d + 60) = Inl ValueError"
  by (simp add: replace_second_def new_datetime_def fields_ok_def)

text \<open>
  Claim C4. With no \<open>end_time\<close> at all, \<open>max_time\<close> is claimed to be \<open>min_time\<close> plus one
  minute. For two records in progress that started ten seconds apart the range is the
  two start times, ten seconds wide.
\<close>

theorem time_range_of_two_open_records:
  "end_time open_event = None \<and> end_time later_open_event = None \<and>
   scene_time_domain (generate_chart init_SVGGanttChart [open_event, later_open_event])
     = Some (example_t0, example_t2) \<and>
   dt_sub example_t2 example_t0 = 10 * 1000000"
  unfolding open_event_def later_open_event_def example_t0_def example_t2_def
  by code_simp

lemma py_min_in: "py_min key cur xs \<in> set (cur # xs)"
proof (induction xs arbitrary: cur)
  case Nil
  show ?case by simp
next
  case (Cons a xs)
  show ?case using Cons[of a] Cons[of cur] by auto
qed

lemma py_max_in: "py_max key cur xs \<in> set (cur # xs)"
proof (induction xs arbitrary: cur)
  case Nil
  show ?case by simp
next
  case (Cons a xs)
  show ?case using Cons[of a] Cons[of cur] by auto
qed

lemma py_min_le_cur: "key (py_min key cur xs) \<le> key cur"
proof (induction xs arbitrary: cur)
  case Nil
  show ?case by simp
next
  case (Cons x xs)
  show ?case
    using Cons.IH[of x] Cons.IH[of cur] by (auto intro: order_trans less_imp_le)
qed

lemma py_min_le: "x \<in> set (cur # xs) \<Longrightarrow> key (py_min key cur xs) \<le> key x"
proof (induction xs arbitrary: cur)
  case Nil
  then show ?case by simp
next
  case (Cons y ys)
  let ?c = "if key y < key cur then y else cur"
  have step: "py_min key cur (y # ys) = py_min key ?c ys" by simp
  have low: "key (py_min key ?c ys) \<le> key ?c" by (rule py_min_le_cur)
  show ?case
  proof (cases "x \<in> set (?c # ys)")
    case True
    then show ?thesis using Cons.IH[of ?c] step by simp
  next
    case False
    then have "key ?c \<le> key x" using Cons.prems by (auto split: if_splits)
    then show ?thesis using low step by (metis order_trans)
  qed
qed

lemma py_max_ge_cur: "key cur \<le> key (py_max key cur xs)"
proof (induction xs arbitrary: cur)
  case Nil
  show ?case by simp
next
  case (Cons x xs)
  show ?case
    using Cons.IH[of x] Cons.IH[of cur] by (auto intro: order_trans less_imp_le)
qed

lemma py_max_ge: "x \<in> set (cur # xs) \<Longrightarrow> key x \<le> key (py_max key cur xs)"
proof (induction xs arbitrary: cur)
  case Nil
  then show ?case by simp
next
  case (Cons y ys)
  let ?c = "if key y > key cur then y else cur"
  have step: "py_max key cur (y # ys) = py_max key ?c ys" by simp
  have high: "key ?c \<le> key (py_max key ?c ys)" by (rule py_max_ge_cur)
  show ?case
  proof (cases "x \<in> set (?c # ys)")
    case True
    then show ?thesis using Cons.IH[of ?c] step by simp
  next
    case False
    then have "key x \<le> key ?c" using Cons.prems by (auto split: if_splits)
    then show ?thesis using high step by (metis order_trans)
  qed
qed

lemma generate_chart_time_range:
  "generate_chart self events = Inr (Chart c) \<Longrightarrow> time_range events = Inr (min_time c, max_time c)"
  unfolding generate_chart_def
  by (auto split: if_splits sum.splits prod.splits)

lemma time_range_open:
  assumes op: "\<forall>u\<in>set (e # es). end_time u = None"
  shows "time_range (e # es) =
     (let min_t = py_min utc_us (start_time e) (map start_time es);
          max_t = py_max utc_us (start_time e) (map start_time es)
      in if utc_us max_t = utc_us min_t
         then (case replace_second min_t (second min_t + 60) of
                 Inl err \<Rightarrow> Inl err
               | Inr m \<Rightarrow> Inr (min_t, m))
         else Inr (min_t, max_t))"
proof -
  have "List.map_filter end_time (e # es) = []"
    using op by (rule map_filter_all_None)
  then show ?thesis
    unfolding time_range_def by (simp add: Let_def total_seconds_def dt_sub_def)
qed

text \<open>
  Claim C4, as the code has it. When no record has an \<open>end_time\<close> and the start times
  are not all the same instant, the time range runs from the earliest to the latest
  start time; no minute is added. A chart that \<open>generate_chart\<close> returns has this range.
\<close>

theorem time_range_open_records:
  assumes ne: "events \<noteq> []"
    and op: "\<forall>u\<in>set events. end_time u = None"
    and df: "\<exists>u\<in>set events. \<exists>v\<in>set events. start_key u \<noteq> start_key v"
  shows "\<exists>mn mx. time_range events = Inr (mn, mx) \<and>
           mn \<in> start_time ` set events \<and> mx \<in> start_time ` set events \<and>
           (\<forall>u\<in>set events. utc_us mn \<le> start_key u \<and> start_key u \<le> utc_us mx) \<and>
           (\<forall>c. generate_chart self events = Inr (Chart c) \<longrightarrow> min_time c = mn \<and> max_time c = mx)"
proof -
  from ne obtain e es where ev: "events = e # es" by (cases events) auto
  define mn where "mn = py_min utc_us (start_time e) (map start_time es)"
  define mx where "mx = py_max utc_us (start_time e) (map start_time es)"
  have mn_in: "mn \<in> start_time ` set events"
    using py_min_in[of utc_us "start_time e" "map start_time es"] ev mn_def by auto
  have mx_in: "mx \<in> start_time ` set events"
    using py_max_in[of utc_us "start_time e" "map start_time es"] ev mx_def by auto
  have bounds: "\<forall>u\<in>set events. utc_us mn \<le> start_key u \<and> start_key u \<le> utc_us mx"
  proof
    fix u assume "u \<in> set events"
    then have "start_time u \<in> set (start_time e # map start_time es)" using ev by auto
    then show "utc_us mn \<le> start_key u \<and> start_key u \<le> utc_us mx"
      unfolding mn_def mx_def start_key_def
      using py_min_le[of "start_time u" "start_time e" "map start_time es" utc_us]
            py_max_ge[of "start_time u" "start_time e" "map start_time es" utc_us]
      by blast
  qed
  from df obtain u v where uv: "u \<in> set events" "v \<in> set events" "start_key u \<noteq> start_key v"
    by blast
  have "utc_us mn \<le> start_key u" "start_key u \<le> utc_us mx"
       "utc_us mn \<le> start_key v" "start_key v \<le> utc_us mx"
    using bounds uv by blast+
  with uv(3) have lt: "utc_us mx \<noteq> utc_us mn" by linarith
  have tr: "time_range events = Inr (mn, mx)"
    using time_range_open[of e es] op lt unfolding ev mn_def mx_def by (simp add: Let_def)
  have ch: "\<forall>c. generate_chart self events = Inr (Chart c) \<longrightarrow> min_time c = mn \<and> max_time c = mx"
    using generate_chart_time_range[of self events] tr by auto
  show ?thesis
    using tr mn_in mx_in bounds ch by blast
qed

theorem time_range_open_records_witness:
  "[open_event, later_open_event] \<noteq> [] \<and>
   end_time open_event = None \<and> end_time later_open_event = None \<and>
   start_key open_event \<noteq> start_key later_open_event \<and>
   (\<exists>mn mx. time_range [open_event, later_open_event] = Inr (mn, mx) \<and>
      mn \<in> start_time ` set [open_event, later_open_event] \<and>
      mx \<in> start_time ` set [open_event, later_open_event] \<and>
      (\<forall>u\<in>set [open_event, later_open_event].
         utc_us mn \<le> start_key u \<and> start_key u \<le> utc_us mx) \<and>
      (\<forall>c. generate_chart init_SVGGanttChart [open_event, later_open_event] = Inr (Chart c)
         \<longrightarrow> min_time c = mn \<and> max_time c = mx))"
proof -
  have h1: "[open_event, later_open_event] \<noteq> []" by simp
  have e1: "end_time open_event = None" "end_time later_open_event = None"
    by (simp_all add: open_event_def later_open_event_def)
  then have h2: "\<forall>u\<in>set [open_event, later_open_event]. end_time u = None" by simp
  have k: "start_key open_event \<noteq> start_key later_open_event"
    unfolding open_event_def later_open_event_def example_t0_def example_t2_def by code_simp
  then have h3: "\<exists>u\<in>set [open_event, later_open_event].
                  \<exists>v\<in>set [open_event, later_open_event]. start_key u \<noteq> start_key v"
    by auto
  show ?thesis
    using h1 e1 k time_range_open_records[OF h1 h2 h3, of init_SVGGanttChart] by blast
qed

subsection \<open>The end-to-end example\<close>

lemma example_parse:
  "parse_logs [example_start_line, example_complete_line] init_LogParser =
     (Inr [example_record],
      \<lparr>upgrades = [(''gw-1'', example_record)], overall_start_time = None\<rparr>)"
  unfolding example_start_line_def example_complete_line_def example_record_def
    example_t0_def example_t1_def
  by code_simp

lemma example_dt_sub: "dt_sub example_t1 example_t0 = 300100000"
  unfolding example_t0_def example_t1_def by code_simp

lemma example_bucket: "bucket_counts [3001 / 600] = [0, 0, 1, 0, 0, 0, 0]"
  by (simp add: bucket_counts_def buckets_def bucket_labels_def eval_nat_numeral)

lemma example_stats:
  "calculate_upgrade_stats [example_record] =
     Inr (Statistics
       \<lparr>total_upgrades = 1, completed_count = 1, in_progress_count = 0,
        durations_minutes = [3001 / 600],
        min_duration = 3001 / 600, max_duration = 3001 / 600, avg_duration = 3001 / 600,
        std_deviation = 0, min_gateway = ''gw-1'', max_gateway = ''gw-1'',
        distribution =
          [(''<2m'', 0, 0), (''2-5m'', 0, 0), (''5-10m'', 1, 100), (''10-15m'', 0, 0),
           (''15-30m'', 0, 0), (''30-60m'', 0, 0), (''>60m'', 0, 0)]\<rparr>)"
  unfolding calculate_upgrade_stats_def
  by (simp add: example_record_def example_dt_sub example_bucket List.map_filter_simps
        total_seconds_def py_div_def bucket_labels_def)

lemma example_chart:
  "generate_chart init_SVGGanttChart [example_record] =
     Inr (Chart
       \<lparr>width = 1200, height = 800, chart_width = 950, chart_height = 660,
        min_time = example_t0, max_time = example_t1, total_duration = 3001 / 10,
        ticks =
          [(0, ''00:00:05''), (475 / 4, ''00:00:42''), (475 / 2, ''00:01:20''),
           (1425 / 4, ''00:01:57''), (475, ''00:02:35''), (2375 / 4, ''00:03:12''),
           (1425 / 2, ''00:03:50''), (3325 / 4, ''00:04:27''), (950, ''00:05:05'')],
        bars =
          [\<lparr>bar_label = ''gw-1'', bar_x = 0, bar_y = 635 / 2, bar_width = 950,
            bar_height = 25, bar_fill = ''#28a745''\<rparr>]\<rparr>)"
  unfolding example_record_def example_t0_def example_t1_def
  by code_simp

text \<open>
  Claim C3. The example is claimed to give a duration of 300.0 seconds, 5.0 minutes,
  that lands in the bucket \<open>5-10m\<close> because the bound is inclusive. The two timestamps
  are 300.1 seconds apart; and a duration of exactly 5 minutes is counted under
  \<open>2-5m\<close>, since the loop stops at the first bound with \<open>duration <= bucket_max\<close>.
\<close>

theorem example_duration_is_not_300_seconds:
  "fst (parse_logs [example_start_line, example_complete_line] init_LogParser)
     = Inr [example_record] \<and>
   start_time example_record = example_t0 \<and>
   end_time example_record = Some example_t1 \<and>
   total_seconds (dt_sub example_t1 example_t0) = 3001 / 10 \<and>
   total_seconds (dt_sub example_t1 example_t0) \<noteq> 300 \<and>
   bucket_index 5 (tl buckets) 0 = Some 1 \<and>
   bucket_labels ! 1 = ''2-5m''"
  by (simp add: example_parse example_dt_sub total_seconds_def example_record_def
        buckets_def bucket_labels_def)

text \<open>
  Claim C3, as the code has it. The two lines give exactly one record, for \<open>gw-1\<close>,
  complete, 300.1 seconds long; the statistics count it under \<open>5-10m\<close>; its bar has the
  colour of \<open>complete\<close>, starts at 0 and is as wide as the chart area.
\<close>

theorem example_pipeline:
  "fst (parse_logs [example_start_line, example_complete_line] init_LogParser)
     = Inr [example_record] \<and>
   gateway_name example_record = ''gw-1'' \<and>
   status example_record = ''complete'' \<and>
   start_time example_record = example_t0 \<and>
   end_time example_record = Some example_t1 \<and>
   total_seconds (dt_sub example_t1 example_t0) = 3001 / 10 \<and>
   calculate_upgrade_stats [example_record] =
     Inr (Statistics
       \<lparr>total_upgrades = 1, completed_count = 1, in_progress_count = 0,
        durations_minutes = [3001 / 600],
        min_duration = 3001 / 600, max_duration = 3001 / 600, avg_duration = 3001 / 600,
        std_deviation = 0, min_gateway = ''gw-1'', max_gateway = ''gw-1'',
        distribution =
          [(''<2m'', 0, 0), (''2-5m'', 0, 0), (''5-10m'', 1, 100), (''10-15m'', 0, 0),
           (''15-30m'', 0, 0), (''30-60m'', 0, 0), (''>60m'', 0, 0)]\<rparr>) \<and>
   generate_chart init_SVGGanttChart [example_record] =
     Inr (Chart
       \<lparr>width = 1200, height = 800, chart_width = 950, chart_height = 660,
        min_time = example_t0, max_time = example_t1, total_duration = 3001 / 10,
        ticks =
          [(0, ''00:00:05''), (475 / 4, ''00:00:42''), (475 / 2, ''00:01:20''),
           (1425 / 4, ''00:01:57''), (475, ''00:02:35''), (2375 / 4, ''00:03:12''),
           (1425 / 2, ''00:03:50''), (3325 / 4, ''00:04:27''), (950, ''00:05:05'')],
        bars =
          [\<lparr>bar_label = ''gw-1'', bar_x = 0, bar_y = 635 / 2, bar_width = 950,
            bar_height = 25, bar_fill = color ''complete''\<rparr>]\<rparr>)"
proof -
  have c: "color ''complete'' = ''#28a745''"
    by (simp add: color_def colors_def)
  have d: "total_seconds (dt_sub example_t1 example_t0) = 3001 / 10"
    by (simp add: example_dt_sub total_seconds_def)
  have r: "gateway_name example_record = ''gw-1'' \<and> status example_record = ''complete'' \<and>
           start_time example_record = example_t0 \<and> end_time example_record = Some example_t1"
    by (simp add: example_record_def)
  show ?thesis
    using c d r example_parse example_stats example_chart by simp
qed

subsection \<open>The result of \<open>parse_logs\<close>\<close>

lemma fst_set_dict_set: "fst ` set (dict_set k v d) = insert k (fst ` set d)"
  by (induction d) auto

lemma distinct_dict_set: "distinct (map fst d) \<Longrightarrow> distinct (map fst (dict_set k v d))"
proof (induction d)
  case Nil
  show ?case by simp
next
  case (Cons p ps)
  then show ?case
    using fst_set_dict_set[of k v ps] by (auto simp: image_iff)
qed

lemma list_all_dict_set: "list_all P d \<Longrightarrow> P (k, v) \<Longrightarrow> list_all P (dict_set k v d)"
  by (induction d) auto

lemma dict_ok_dict_set: "dict_ok d \<Longrightarrow> gateway_name v = k \<Longrightarrow> dict_ok (dict_set k v d)"
  unfolding dict_ok_def by (simp add: distinct_dict_set list_all_dict_set)

lemma dict_ok_lookup: "dict_ok d \<Longrightarrow> map_of d k = Some u \<Longrightarrow> gateway_name u = k"
  unfolding dict_ok_def by (auto dest!: map_of_SomeD simp: list_all_iff)

lemma dict_ok_Nil: "dict_ok []"
  by (simp add: dict_ok_def)

lemma parse_line_dict_ok:
  assumes "dict_ok (upgrades st)"
  shows "dict_ok (upgrades (snd (parse_line raw st)))"
  using assms unfolding parse_line_def Let_def
  by (auto split: sum.splits option.splits simp: dict_ok_dict_set dict_ok_Nil dict_ok_lookup)

lemma parse_lines_dict_ok:
  "dict_ok (upgrades st) \<Longrightarrow> dict_ok (upgrades (snd (parse_lines ls st)))"
proof (induction ls arbitrary: st)
  case Nil
  then show ?case by simp
next
  case (Cons l ls)
  obtain r st1 where p: "parse_line l st = (r, st1)" by (cases "parse_line l st")
  have ok1: "dict_ok (upgrades st1)"
    using parse_line_dict_ok[OF Cons.prems, of l] p by simp
  show ?case
  proof (cases r)
    case (Inl e)
    then show ?thesis using p ok1 by simp
  next
    case (Inr u)
    then show ?thesis using p Cons.IH[OF ok1] by simp
  qed
qed

lemma names_of_dict: "dict_ok d \<Longrightarrow> map gateway_name (map snd d) = map fst d"
  unfolding dict_ok_def by (induction d) auto

lemma finalize_sorted_permutation:
  assumes "dict_ok (upgrades st)"
  shows "sorted (map start_key (finalize st)) \<and>
         (\<forall>k. filter (\<lambda>r. start_key r = k) (finalize st)
               = filter (\<lambda>r. start_key r = k) (map snd (upgrades st))) \<and>
         mset (finalize st) = mset (map snd (upgrades st)) \<and>
         distinct (map gateway_name (finalize st)) \<and>
         set (map gateway_name (finalize st)) = fst ` set (upgrades st)"
proof -
  have m: "mset (finalize st) = mset (map snd (upgrades st))"
    by (simp add: finalize_def)
  have n: "map gateway_name (map snd (upgrades st)) = map fst (upgrades st)"
    using assms by (rule names_of_dict)
  have "mset (map gateway_name (finalize st)) = mset (map fst (upgrades st))"
    using m n by (metis mset_map)
  then have d: "distinct (map gateway_name (finalize st))"
    and s: "set (map gateway_name (finalize st)) = fst ` set (upgrades st)"
    using assms unfolding dict_ok_def
    by (metis mset_eq_imp_distinct_iff, metis mset_eq_setD set_map)
  show ?thesis
    using m d s by (simp add: finalize_def sort_key_stable)
qed

lemma parse_logs_result_sorted:
  assumes "dict_ok (upgrades st)" and "parse_logs ls st = (Inr recs, st')"
  shows "sorted (map start_key recs) \<and>
         (\<forall>k. filter (\<lambda>r. start_key r = k) recs
               = filter (\<lambda>r. start_key r = k) (map snd (upgrades st'))) \<and>
         mset recs = mset (map snd (upgrades st')) \<and>
         distinct (map gateway_name recs) \<and>
         set (map gateway_name recs) = fst ` set (upgrades st')"
proof -
  obtain r st1 where p: "parse_lines ls st = (r, st1)" by (cases "parse_lines ls st")
  have ok: "dict_ok (upgrades st1)"
    using parse_lines_dict_ok[OF assms(1), of ls] p by simp
  from assms(2) p have "recs = finalize st1" and "st' = st1"
    unfolding parse_logs_def by (auto split: sum.splits)
  then show ?thesis
    using finalize_sorted_permutation[OF ok] by simp
qed

lemma fromisoformat_ValueError: "fromisoformat s = Inl e \<Longrightarrow> e = ValueError"
  unfolding fromisoformat_def new_datetime_def by (auto split: option.splits if_splits)

lemma parse_timestamp_ValueError: "parse_timestamp line = Inl e \<Longrightarrow> e = ValueError"
  unfolding parse_timestamp_def
  by (auto split: option.splits sum.splits if_splits prod.splits dest: fromisoformat_ValueError)

lemma parse_line_raises_iff:
  "fst (parse_line raw st) = Inl e \<longleftrightarrow> parse_timestamp (strip raw) = Inl e"
  unfolding parse_line_def Let_def
  using parse_timestamp_Nil
  by (auto split: sum.splits option.splits)

lemma parse_lines_returns:
  "(\<forall>l\<in>set ls. \<forall>e. parse_timestamp (strip l) \<noteq> Inl e) \<Longrightarrow> fst (parse_lines ls st) = Inr ()"
proof (induction ls arbitrary: st)
  case Nil
  show ?case by simp
next
  case (Cons l ls)
  obtain r st1 where p: "parse_line l st = (r, st1)" by (cases "parse_line l st")
  have "\<forall>e. r \<noteq> Inl e"
    using parse_line_raises_iff[of l st] p Cons.prems by auto
  then have "r = Inr ()" by (cases r) auto
  then show ?case using p Cons by simp
qed

text \<open>
  An exception of \<open>parse_line\<close> ends \<open>parse_logs\<close>: the records read so far stay in
  the parser and nothing is returned.
\<close>

lemma parse_logs_raises_on_invalid_date:
  "parse_logs [example_start_line, bad_month_line, example_complete_line] init_LogParser =
     (Inl ValueError,
      \<lparr>upgrades =
         [(''gw-1'', \<lparr>gateway_name = ''gw-1'', start_time = example_t0, end_time = None,
                      version_info = ''8.1.0-1000.1500'', status = ''in_progress''\<rparr>)],
       overall_start_time = None\<rparr>)"
  unfolding example_start_line_def bad_month_line_def example_complete_line_def example_t0_def
  by code_simp

text \<open>
  Claim C5. The result is claimed to hold one record for every unit that produced one,
  none dropped. A reset empties the \<open>dict\<close>: \<open>gw-1\<close> produced a record, and after
  the reset and a start for \<open>gw-2\<close> the result holds \<open>gw-2\<close> alone.
\<close>

theorem parse_logs_drops_records_before_reset:
  "map fst (upgrades (snd (parse_line example_start_line init_LogParser))) = [''gw-1''] \<and>
   fst (parse_logs [example_start_line, later_reset_line, later_start_line] init_LogParser) =
     Inr [\<lparr>gateway_name = ''gw-2'',
           start_time = \<lparr>year = 2025, month = 7, day = 23, hour = 0, minute = 10, second = 5,
                         microsecond = 0, utcoffset = 0\<rparr>,
           end_time = None, version_info = ''8.1.0-1000.1600'', status = ''in_progress''\<rparr>]"
  unfolding example_start_line_def later_reset_line_def later_start_line_def
  by code_simp

lemma keys_dict_set: "map fst (dict_set k v d) = note_unit (map fst d) k"
  by (induction d) (auto simp: note_unit_def)

lemma map_of_None_keys: "map_of d k = None \<longleftrightarrow> k \<notin> set (map fst d)"
  by (simp add: map_of_eq_None_iff)

lemma map_of_Some_keys: "map_of d k = Some u \<Longrightarrow> k \<in> set (map fst d)"
  by (metis map_of_None_keys option.distinct(1))

lemma parse_line_keys:
  "map fst (upgrades (snd (parse_line raw st))) = key_step (map fst (upgrades st)) raw"
  unfolding parse_line_def classify_def key_step_def Let_def
  by (auto split: sum.splits option.splits
        simp: keys_dict_set note_unit_def map_of_None_keys dest: map_of_Some_keys)

lemma parse_lines_keys:
  "fst (parse_lines ls st) = Inr () \<Longrightarrow>
   map fst (upgrades (snd (parse_lines ls st))) = foldl key_step (map fst (upgrades st)) ls"
proof (induction ls arbitrary: st)
  case Nil
  show ?case by simp
next
  case (Cons l ls)
  obtain r st1 where p: "parse_line l st = (r, st1)" by (cases "parse_line l st")
  show ?case
  proof (cases r)
    case (Inl e)
    then show ?thesis using p Cons.prems by simp
  next
    case (Inr u)
    have k: "map fst (upgrades st1) = key_step (map fst (upgrades st)) l"
      using parse_line_keys[of l st] p by simp
    from Inr p Cons.prems have "fst (parse_lines ls st1) = Inr ()" by simp
    from Cons.IH[OF this] show ?thesis using Inr p k by simp
  qed
qed

lemma after_last_reset_snoc:
  "after_last_reset (ls @ [l]) = (if is_reset l then [] else after_last_reset ls @ [l])"
  by (simp add: after_last_reset_def)

lemma units_in_order_snoc:
  "units_in_order known (ls @ [l]) =
     (case unit_of l of None \<Rightarrow> units_in_order known ls
      | Some n \<Rightarrow> note_unit (units_in_order known ls) n)"
  by (simp add: units_in_order_def List.map_filter_def split: option.splits)

lemma foldl_key_step:
  "foldl key_step ks ls =
     units_in_order (if list_ex is_reset ls then [] else ks) (after_last_reset ls)"
proof (induction ls rule: rev_induct)
  case Nil
  show ?case by (simp add: after_last_reset_def units_in_order_def List.map_filter_simps)
next
  case (snoc l ls)
  show ?case
  proof (cases "classify l")
    case Skipped
    then show ?thesis
      using snoc
      by (simp add: key_step_def after_last_reset_snoc units_in_order_snoc is_reset_def unit_of_def)
  next
    case Reset_marker
    then show ?thesis
      by (simp add: key_step_def after_last_reset_snoc is_reset_def units_in_order_def
            List.map_filter_simps)
  next
    case (Unit_marker n)
    then show ?thesis
      using snoc
      by (simp add: key_step_def after_last_reset_snoc units_in_order_snoc is_reset_def unit_of_def)
  qed
qed

lemma set_foldl_note_unit: "set (foldl note_unit ks ns) = set ks \<union> set ns"
  by (induction ns arbitrary: ks) (auto simp: note_unit_def)

lemma set_units_in_order:
  "set (units_in_order known ls) = set known \<union> set (List.map_filter unit_of ls)"
  by (simp add: units_in_order_def set_foldl_note_unit)

text \<open>
  Claim C5, as the code has it. On an input none of whose lines has a timestamp that
  raises, \<open>parse_logs\<close> returns. The unit ids of \<open>upgrades\<close> are then the units named
  by the start, installing and completion lines after the last reset marker, in the
  order of their first such line (after the ids the parser held before, when the input
  has no reset marker). The result is the content of \<open>upgrades\<close>: sorted by the instant
  of \<open>start_time\<close>, records with the same instant in that order, a permutation of its
  values, exactly one record for each of those unit ids.
\<close>

theorem parse_logs_sorted_permutation:
  assumes "dict_ok (upgrades st)"
    and "\<forall>l\<in>set ls. \<forall>e. parse_timestamp (strip l) \<noteq> Inl e"
  shows "\<exists>recs st'. parse_logs ls st = (Inr recs, st') \<and>
           sorted (map start_key recs) \<and>
           (\<forall>k. filter (\<lambda>r. start_key r = k) recs
                 = filter (\<lambda>r. start_key r = k) (map snd (upgrades st'))) \<and>
           mset recs = mset (map snd (upgrades st')) \<and>
           distinct (map gateway_name recs) \<and>
           set (map gateway_name recs) = fst ` set (upgrades st') \<and>
           map gateway_name (map snd (upgrades st')) = map fst (upgrades st') \<and>
           map fst (upgrades st') =
             units_in_order (if list_ex is_reset ls then [] else map fst (upgrades st))
               (after_last_reset ls) \<and>
           set (map gateway_name recs) =
             set (if list_ex is_reset ls then [] else map fst (upgrades st)) \<union>
             set (List.map_filter unit_of (after_last_reset ls))"
proof -
  obtain r st1 where p: "parse_lines ls st = (r, st1)" by (cases "parse_lines ls st")
  have ret: "fst (parse_lines ls st) = Inr ()"
    by (rule parse_lines_returns[OF assms(2)])
  then have "r = Inr ()" using p by simp
  then have q: "parse_logs ls st = (Inr (finalize st1), st1)"
    using p by (simp add: parse_logs_def)
  have ok: "dict_ok (upgrades st1)"
    using parse_lines_dict_ok[OF assms(1), of ls] p by simp
  have names: "map gateway_name (map snd (upgrades st1)) = map fst (upgrades st1)"
    using ok by (rule names_of_dict)
  have keys: "map fst (upgrades st1) =
      units_in_order (if list_ex is_reset ls then [] else map fst (upgrades st))
        (after_last_reset ls)"
    using parse_lines_keys[OF ret] p by (simp add: foldl_key_step)
  note base = parse_logs_result_sorted[OF assms(1) q]
  have b1: "sorted (map start_key (finalize st1))"
    using base by (rule conjunct1)
  have b2: "\<forall>k. filter (\<lambda>r. start_key r = k) (finalize st1)
                = filter (\<lambda>r. start_key r = k) (map snd (upgrades st1))"
    using base by (elim conjE)
  have b3: "mset (finalize st1) = mset (map snd (upgrades st1))"
    using base by (elim conjE)
  have b4: "distinct (map gateway_name (finalize st1))"
    using base by (elim conjE)
  have b5: "set (map gateway_name (finalize st1)) = fst ` set (upgrades st1)"
    using base by (elim conjE)
  have "fst ` set (upgrades st1) = set (map fst (upgrades st1))" by simp
  also have "\<dots> = set (if list_ex is_reset ls then [] else map fst (upgrades st)) \<union>
       set (List.map_filter unit_of (after_last_reset ls))"
    unfolding keys by (rule set_units_in_order)
  finally have units: "set (map gateway_name (finalize st1)) =
       set (if list_ex is_reset ls then [] else map fst (upgrades st)) \<union>
       set (List.map_filter unit_of (after_last_reset ls))"
    using b5 by simp
  show ?thesis
    by (rule exI[of _ "finalize st1"], rule exI[of _ st1], intro conjI)
       (fact q, fact b1, fact b2, fact b3, fact b4, fact b5, fact names, fact keys, fact units)
qed

theorem parse_logs_sorted_permutation_witness:
  "dict_ok (upgrades init_LogParser) \<and>
   parse_timestamp (strip later_start_line) \<noteq> Inl ValueError \<and>
   parse_timestamp (strip later_reset_line) \<noteq> Inl ValueError \<and>
   parse_timestamp (strip example_start_line) \<noteq> Inl ValueError \<and>
   parse_timestamp (strip ''no timestamp on this line'') \<noteq> Inl ValueError \<and>
   parse_timestamp (strip tied_start_line) \<noteq> Inl ValueError \<and>
   (\<exists>recs st'.
      parse_logs [later_start_line, later_reset_line, example_start_line,
                  ''no timestamp on this line'', tied_start_line] init_LogParser
        = (Inr recs, st') \<and>
      sorted (map start_key recs) \<and>
      (\<forall>k. filter (\<lambda>r. start_key r = k) recs
            = filter (\<lambda>r. start_key r = k) (map snd (upgrades st'))) \<and>
      mset recs = mset (map snd (upgrades st')) \<and>
      distinct (map gateway_name recs) \<and>
      map fst (upgrades st') = [''gw-1'', ''gw-0''] \<and>
      set (map gateway_name recs) = {''gw-1'', ''gw-0''}) \<and>
   map gateway_name
     (finalize (snd (parse_lines [later_start_line, later_reset_line, example_start_line,
                                  ''no timestamp on this line'', tied_start_line]
                       init_LogParser))) = [''gw-1'', ''gw-0'']"
proof -
  let ?ls = "[later_start_line, later_reset_line, example_start_line,
              ''no timestamp on this line'', tied_start_line]"
  have h1: "dict_ok (upgrades init_LogParser)"
    by (simp add: init_LogParser_def dict_ok_def)
  have t0: "parse_timestamp (strip later_start_line) \<noteq> Inl ValueError"
    unfolding later_start_line_def by code_simp
  have t1: "parse_timestamp (strip later_reset_line) \<noteq> Inl ValueError"
    unfolding later_reset_line_def by code_simp
  have t2: "parse_timestamp (strip example_start_line) \<noteq> Inl ValueError"
    unfolding example_start_line_def by code_simp
  have t3: "parse_timestamp (strip ''no timestamp on this line'') \<noteq> Inl ValueError"
    by code_simp
  have t4: "parse_timestamp (strip tied_start_line) \<noteq> Inl ValueError"
    unfolding tied_start_line_def by code_simp
  have h2: "\<forall>l\<in>set ?ls. \<forall>e. parse_timestamp (strip l) \<noteq> Inl e"
  proof (intro ballI allI)
    fix l e assume "l \<in> set ?ls"
    then have "parse_timestamp (strip l) \<noteq> Inl ValueError"
      using t0 t1 t2 t3 t4 by auto
    then show "parse_timestamp (strip l) \<noteq> Inl e"
      using parse_timestamp_ValueError[of "strip l" e] by auto
  qed
  have r: "list_ex is_reset ?ls"
    unfolding later_start_line_def later_reset_line_def example_start_line_def
      tied_start_line_def
    by code_simp
  have u: "units_in_order [] (after_last_reset ?ls) = [''gw-1'', ''gw-0'']"
    unfolding later_start_line_def later_reset_line_def example_start_line_def
      tied_start_line_def
    by code_simp
  have o: "map gateway_name (finalize (snd (parse_lines ?ls init_LogParser)))
             = [''gw-1'', ''gw-0'']"
    unfolding later_start_line_def later_reset_line_def example_start_line_def
      tied_start_line_def
    by code_simp
  from parse_logs_sorted_permutation[OF h1 h2]
  obtain recs st' where res:
    "parse_logs ?ls init_LogParser = (Inr recs, st')"
    "sorted (map start_key recs)"
    "\<forall>k. filter (\<lambda>r. start_key r = k) recs
          = filter (\<lambda>r. start_key r = k) (map snd (upgrades st'))"
    "mset recs = mset (map snd (upgrades st'))"
    "distinct (map gateway_name recs)"
    "set (map gateway_name recs) = fst ` set (upgrades st')"
    "map fst (upgrades st') =
       units_in_order (if list_ex is_reset ?ls then [] else map fst (upgrades init_LogParser))
         (after_last_reset ?ls)"
    by (elim exE conjE)
  have k: "map fst (upgrades st') = [''gw-1'', ''gw-0'']"
    using res(7) r u by (simp only: if_True)
  have "fst ` set (upgrades st') = set (map fst (upgrades st'))"
    by (simp only: set_map)
  also have "\<dots> = {''gw-1'', ''gw-0''}"
    unfolding k by (simp only: list.set)
  finally have n: "set (map gateway_name recs) = {''gw-1'', ''gw-0''}"
    using res(6) by (simp only:)
  have ex: "\<exists>recs st'.
      parse_logs ?ls init_LogParser = (Inr recs, st') \<and>
      sorted (map start_key recs) \<and>
      (\<forall>k. filter (\<lambda>r. start_key r = k) recs
            = filter (\<lambda>r. start_key r = k) (map snd (upgrades st'))) \<and>
      mset recs = mset (map snd (upgrades st')) \<and>
      distinct (map gateway_name recs) \<and>
      map fst (upgrades st') = [''gw-1'', ''gw-0''] \<and>
      set (map gateway_name recs) = {''gw-1'', ''gw-0''}"
    by (rule exI[of _ recs], rule exI[of _ st'], intro conjI)
       (fact res(1), fact res(2), fact res(3), fact res(4), fact res(5), fact k, fact n)
  show ?thesis
    by (intro conjI) (fact h1, fact t0, fact t1, fact t2, fact t3, fact t4, fact ex, fact o)
qed

end
